theory Spec2Isabelle
  imports Complex_Main
begin

section \<open>Python values, exceptions and the operations the encoder uses\<close>

text \<open>
  The values that flow through \<^verbatim>\<open>data_ml.py\<close>: what SQLite returns for a column
  (NULL, integers, reals, text) and what \<^verbatim>\<open>json.loads\<close> returns (the same scalars,
  lists and objects). Floats are never computed with by the encoder, only copied, so
  a float is carried as the real number it denotes. Strings are ASCII text.
\<close>

datatype pyval =
    PNone
  | PBool bool
  | PInt int
  | PFloat real
  | PStr string
  | PList "pyval list"
  | PDict "(string \<times> pyval) list"

text \<open>
  Exceptions are values. \<open>RuntimeError prefix e\<close> is the Python
  \<^verbatim>\<open>RuntimeError(f"<prefix>{str(e)}")\<close> raised by the handlers that wrap an exception.
\<close>

datatype exn =
    TypeError
  | AttributeError
  | IndexError
  | KeyError
  | JSONDecodeError
  | NameError string
  | ValueError string
  | RuntimeError string exn

definition bind_exn :: "exn + 'a \<Rightarrow> ('a \<Rightarrow> exn + 'b) \<Rightarrow> exn + 'b" where
  "bind_exn m f = (case m of Inl e \<Rightarrow> Inl e | Inr x \<Rightarrow> f x)"

subsection \<open>\<^verbatim>\<open>str.title()\<close> on ASCII text\<close>

definition ascii_lowercase :: string where
  "ascii_lowercase = ''abcdefghijklmnopqrstuvwxyz''"

definition ascii_uppercase :: string where
  "ascii_uppercase = ''ABCDEFGHIJKLMNOPQRSTUVWXYZ''"

definition is_lower :: "char \<Rightarrow> bool" where
  "is_lower c = (c \<in> set ascii_lowercase)"

definition is_upper :: "char \<Rightarrow> bool" where
  "is_upper c = (c \<in> set ascii_uppercase)"

definition to_upper :: "char \<Rightarrow> char" where
  "to_upper c = (case map_of (zip ascii_lowercase ascii_uppercase) c of Some u \<Rightarrow> u | None \<Rightarrow> c)"

definition to_lower :: "char \<Rightarrow> char" where
  "to_lower c = (case map_of (zip ascii_uppercase ascii_lowercase) c of Some l \<Rightarrow> l | None \<Rightarrow> c)"

text \<open>
  CPython walks the string with a flag \<open>previous_is_cased\<close>: a character after a
  cased one is lowercased, any other is titlecased (uppercased, for ASCII).
\<close>

fun title_from :: "bool \<Rightarrow> string \<Rightarrow> string" where
  "title_from previous_is_cased [] = []"
| "title_from previous_is_cased (c # cs) =
     (if previous_is_cased then to_lower c else to_upper c)
       # title_from (is_lower c \<or> is_upper c) cs"

definition title :: "string \<Rightarrow> string" where
  "title s = title_from False s"

subsection \<open>Containers: \<^verbatim>\<open>in\<close>, iteration and subscripting\<close>

fun is_substring :: "string \<Rightarrow> string \<Rightarrow> bool" where
  "is_substring s [] = (s = [])"
| "is_substring s (c # cs) = (take (length s) (c # cs) = s \<or> is_substring s cs)"

text \<open>
  \<^verbatim>\<open>w in container\<close> for a string \<open>w\<close>: equality against the elements of a list
  (a string equals only the same string), substring search in a string, key lookup
  in a dict; any other value is not iterable and raises \<^verbatim>\<open>TypeError\<close>.
\<close>

definition py_contains :: "pyval \<Rightarrow> string \<Rightarrow> exn + bool" where
  "py_contains container w =
     (case container of
        PList xs \<Rightarrow> Inr (PStr w \<in> set xs)
      | PStr t \<Rightarrow> Inr (is_substring w t)
      | PDict kvs \<Rightarrow> Inr (w \<in> set (map fst kvs))
      | _ \<Rightarrow> Inl TypeError)"

text \<open>\<^verbatim>\<open>for c in container\<close>: the elements of a list, the characters of a string, the keys of a dict.\<close>

definition py_iter :: "pyval \<Rightarrow> exn + pyval list" where
  "py_iter container =
     (case container of
        PList xs \<Rightarrow> Inr xs
      | PStr t \<Rightarrow> Inr (map (\<lambda>c. PStr [c]) t)
      | PDict kvs \<Rightarrow> Inr (map (\<lambda>kv. PStr (fst kv)) kvs)
      | _ \<Rightarrow> Inl TypeError)"

text \<open>
  \<^verbatim>\<open>container[i]\<close> for the constant indices 0 and 1 the code uses. The keys of a decoded
  JSON object are strings, so an integer subscript of a dict raises \<^verbatim>\<open>KeyError\<close>.
\<close>

definition py_getitem :: "pyval \<Rightarrow> nat \<Rightarrow> exn + pyval" where
  "py_getitem container i =
     (case container of
        PList xs \<Rightarrow> (if i < length xs then Inr (xs ! i) else Inl IndexError)
      | PStr t \<Rightarrow> (if i < length t then Inr (PStr [t ! i]) else Inl IndexError)
      | PDict kvs \<Rightarrow> Inl KeyError
      | _ \<Rightarrow> Inl TypeError)"

text \<open>\<^verbatim>\<open>c.title()\<close>: only a string has the method.\<close>

definition py_title :: "pyval \<Rightarrow> exn + pyval" where
  "py_title c = (case c of PStr t \<Rightarrow> Inr (PStr (title t)) | _ \<Rightarrow> Inl AttributeError)"

text \<open>The comprehension \<^verbatim>\<open>[c.title() for c in xs]\<close> over the elements already iterated.\<close>

fun title_each :: "pyval list \<Rightarrow> exn + pyval list" where
  "title_each [] = Inr []"
| "title_each (c # cs) =
     bind_exn (py_title c) (\<lambda>t. bind_exn (title_each cs) (\<lambda>ts. Inr (t # ts)))"

text \<open>\<^verbatim>\<open>d.get(key, default)\<close> on a dict with string keys.\<close>

definition dict_get :: "(string \<rightharpoonup> pyval) \<Rightarrow> string \<Rightarrow> pyval \<Rightarrow> pyval" where
  "dict_get d k dflt = (case d k of None \<Rightarrow> dflt | Some v \<Rightarrow> v)"

section \<open>The feature encoder\<close>

definition all_cuisines :: "string list" where
  "all_cuisines = [''Italian'', ''American'', ''Mexican'', ''Japanese'', ''Asian'',
                   ''European'', ''Mediterranean'', ''Thai'']"

definition all_tastes :: "string list" where
  "all_tastes = [''Sweet'', ''Salty'', ''Sour'', ''Bitter'', ''Umami'', ''Spicy'']"

text \<open>
  \<^verbatim>\<open>{"happy": 2, "neutral": 1, "sad": 0}.get(key, 1)\<close>. The key is hashed first: a list
  or a dict is unhashable and raises \<^verbatim>\<open>TypeError\<close>; every other value that is not one
  of the three strings gets the default.
\<close>

definition emotion_map :: "(string \<times> int) list" where
  "emotion_map = [(''happy'', 2), (''neutral'', 1), (''sad'', 0)]"

definition emotion_get :: "pyval \<Rightarrow> exn + int" where
  "emotion_get key =
     (case key of
        PList xs \<Rightarrow> Inl TypeError
      | PDict kvs \<Rightarrow> Inl TypeError
      | PStr t \<Rightarrow> Inr (case map_of emotion_map t of Some n \<Rightarrow> n | None \<Rightarrow> 1)
      | _ \<Rightarrow> Inr 1)"

text \<open>
  The values Python can hash, among those of \<open>pyval\<close>: all but lists and dicts. Every
  value SQLite hands back for a column is one of them.
\<close>

definition hashable :: "pyval \<Rightarrow> bool" where
  "hashable v = (case v of PList xs \<Rightarrow> False | PDict kvs \<Rightarrow> False | _ \<Rightarrow> True)"

text \<open>The three diet flags, written the same way in both paths: \<open>[Vegan, Vegetarian, None]\<close>.\<close>

definition diet_vector :: "pyval \<Rightarrow> pyval list" where
  "diet_vector diet =
     [PInt (if diet = PStr ''Vegan'' then 1 else 0),
      PInt (if diet = PStr ''Vegetarian'' then 1 else 0),
      PInt (if diet = PStr ''None'' then 1 else 0)]"

subsection \<open>The prediction path: \<^verbatim>\<open>prepare_feature_vector\<close>\<close>

text \<open>\<^verbatim>\<open>[1 if w in xs else 0 for w in vocabulary]\<close> where \<open>xs\<close> is a Python list.\<close>

definition one_hot :: "string list \<Rightarrow> pyval list \<Rightarrow> pyval list" where
  "one_hot vocabulary xs = map (\<lambda>w. PInt (if PStr w \<in> set xs then 1 else 0)) vocabulary"

text \<open>
  \<^verbatim>\<open>if isinstance(price_range, list) and len(price_range) == 2\<close>: the two elements,
  whatever they are; otherwise the default \<open>1, 4\<close>.
\<close>

definition price_pair :: "pyval \<Rightarrow> pyval \<times> pyval" where
  "price_pair price_range =
     (case price_range of
        PList [price_min, price_max] \<Rightarrow> (price_min, price_max)
      | _ \<Rightarrow> (PInt 1, PInt 4))"

definition prepare_feature_vector ::
  "(string \<rightharpoonup> pyval) \<Rightarrow> (string \<rightharpoonup> pyval) \<Rightarrow> exn + pyval list" where
  "prepare_feature_vector user_info recent_search =
     (let temperature_bias = dict_get user_info ''temperature_bias'' (PFloat 0.5);
          tourist_bias = dict_get user_info ''tourist_bias'' (PFloat 0.5)
      in
      bind_exn (emotion_get (dict_get user_info ''emotion'' (PStr ''neutral''))) (\<lambda>emotion.
      bind_exn (py_iter (dict_get recent_search ''cuisines'' (PList []))) (\<lambda>cs.
      bind_exn (title_each cs) (\<lambda>cuisines.
      bind_exn (py_iter (dict_get recent_search ''tastes'' (PList []))) (\<lambda>ts.
      bind_exn (title_each ts) (\<lambda>tastes.
        (let cuisine_vector = one_hot all_cuisines cuisines;
             taste_vector = one_hot all_tastes tastes;
             diet = dict_get recent_search ''diet'' (PStr ''None'');
             price_range = dict_get recent_search ''price_range'' (PList [PInt 1, PInt 4]);
             (price_min, price_max) = price_pair price_range
         in Inr ([temperature_bias, tourist_bias, PInt emotion]
                 @ cuisine_vector @ taste_vector @ diet_vector diet
                 @ [price_min, price_max]))))))))"

subsection \<open>The stored rows\<close>

text \<open>
  The columns of \<^verbatim>\<open>Users\<close>, \<^verbatim>\<open>Searches\<close> and \<^verbatim>\<open>Interactions\<close> that the pipeline reads.
  A JSON column of \<^verbatim>\<open>Searches\<close> is held as the outcome of \<^verbatim>\<open>json.loads\<close> on its text:
  \<open>Inr v\<close> when the text encodes \<open>v\<close>, \<open>Inl e\<close> when decoding raises (malformed text,
  or NULL). The tables are lists in row order.
\<close>

record user_row =
  user_id :: int
  user_temperature_bias :: pyval
  user_tourist_bias :: pyval
  user_emotion :: pyval

record search_row =
  search_user_id :: int
  search_cuisines :: "exn + pyval"
  search_tastes :: "exn + pyval"
  search_diet :: pyval
  search_price_range :: "exn + pyval"

record interaction_row =
  interaction_user_id :: int
  interaction_feedback :: pyval

record database =
  Users :: "user_row list"
  Searches :: "search_row list"
  Interactions :: "interaction_row list"

text \<open>The dict \<^verbatim>\<open>get_user_data\<close> builds from the row it fetched.\<close>

definition user_info_of_row :: "user_row \<Rightarrow> (string \<rightharpoonup> pyval)" where
  "user_info_of_row row =
     [''temperature_bias'' \<mapsto> user_temperature_bias row,
      ''tourist_bias'' \<mapsto> user_tourist_bias row,
      ''emotion'' \<mapsto> user_emotion row]"

text \<open>The dict \<^verbatim>\<open>get_recent_search\<close> builds from the row it fetched, decoding in column order.\<close>

definition recent_search_of_row :: "search_row \<Rightarrow> exn + (string \<rightharpoonup> pyval)" where
  "recent_search_of_row row =
     bind_exn (search_cuisines row) (\<lambda>cuisines.
     bind_exn (search_tastes row) (\<lambda>tastes.
     bind_exn (search_price_range row) (\<lambda>price_range.
       Inr [''cuisines'' \<mapsto> cuisines, ''tastes'' \<mapsto> tastes,
            ''diet'' \<mapsto> search_diet row, ''price_range'' \<mapsto> price_range])))"

subsection \<open>The training path: \<^verbatim>\<open>prepare_training_data\<close>\<close>

text \<open>
  \<^verbatim>\<open>[1 if w in container else 0 for w in vocabulary]\<close> where \<open>container\<close> is the decoded
  column as it is: no list is built from it and nothing is title-cased.
\<close>

fun one_hot_in :: "string list \<Rightarrow> pyval \<Rightarrow> exn + pyval list" where
  "one_hot_in [] container = Inr []"
| "one_hot_in (w # ws) container =
     bind_exn (py_contains container w) (\<lambda>b.
     bind_exn (one_hot_in ws container) (\<lambda>flags.
       Inr (PInt (if b then 1 else 0) # flags)))"

text \<open>
  Lines 166 to 194 of the loop body: the search row is decoded and encoded, after the
  two biases and the emotion code have been read from the user row.
\<close>

definition training_feature_vector ::
  "pyval \<Rightarrow> pyval \<Rightarrow> int \<Rightarrow> search_row \<Rightarrow> exn + pyval list" where
  "training_feature_vector temperature_bias tourist_bias emotion row =
     bind_exn (search_cuisines row) (\<lambda>cuisines.
     bind_exn (search_tastes row) (\<lambda>tastes.
     bind_exn (search_price_range row) (\<lambda>price_range.
     bind_exn (one_hot_in all_cuisines cuisines) (\<lambda>cuisine_vector.
     bind_exn (one_hot_in all_tastes tastes) (\<lambda>taste_vector.
     bind_exn (py_getitem price_range 0) (\<lambda>price_min.
     bind_exn (py_getitem price_range 1) (\<lambda>price_max.
       Inr ([temperature_bias, tourist_bias, PInt emotion]
            @ cuisine_vector @ taste_vector @ diet_vector (search_diet row)
            @ [price_min, price_max]))))))))"

text \<open>The encoding the loop body applies to one user row and one search row.\<close>

definition encode_interaction :: "user_row \<Rightarrow> search_row \<Rightarrow> exn + pyval list" where
  "encode_interaction u row =
     bind_exn (emotion_get (user_emotion u)) (\<lambda>emotion.
       training_feature_vector (user_temperature_bias u) (user_tourist_bias u) emotion row)"

text \<open>
  \<^verbatim>\<open>users_df[users_df['user_id'] == user_id]\<close> and
  \<^verbatim>\<open>searches_df[searches_df['user_id'] == user_id]\<close>: the matching rows, in table order.
\<close>

definition users_with_id :: "database \<Rightarrow> int \<Rightarrow> user_row list" where
  "users_with_id db uid = filter (\<lambda>u. user_id u = uid) (Users db)"

definition searches_with_user_id :: "database \<Rightarrow> int \<Rightarrow> search_row list" where
  "searches_with_user_id db uid = filter (\<lambda>r. search_user_id r = uid) (Searches db)"

text \<open>
  One pass of the loop body: \<open>Inl e\<close> when it raises, \<open>Inr None\<close> when it reaches
  \<^verbatim>\<open>continue\<close>, \<open>Inr (Some (feature_vector, feedback))\<close> when it appends. The user row
  is the first match (\<^verbatim>\<open>.iloc[0]\<close>, which raises on no match), the search row the last
  (\<^verbatim>\<open>.iloc[-1]\<close>); the emotion is looked up before the search rows are.
\<close>

definition process_interaction ::
  "database \<Rightarrow> interaction_row \<Rightarrow> exn + (pyval list \<times> pyval) option" where
  "process_interaction db interaction =
     (case users_with_id db (interaction_user_id interaction) of
        [] \<Rightarrow> Inl IndexError
      | u # us \<Rightarrow>
          bind_exn (emotion_get (user_emotion u)) (\<lambda>emotion.
            (case searches_with_user_id db (interaction_user_id interaction) of
               [] \<Rightarrow> Inr None
             | r # rs \<Rightarrow>
                 bind_exn (training_feature_vector (user_temperature_bias u) (user_tourist_bias u)
                             emotion (last (r # rs)))
                   (\<lambda>feature_vector. Inr (Some (feature_vector, interaction_feedback interaction))))))"

fun training_loop ::
  "database \<Rightarrow> interaction_row list \<Rightarrow> pyval list list \<Rightarrow> pyval list
     \<Rightarrow> exn + (pyval list list \<times> pyval list)" where
  "training_loop db [] data labels = Inr (data, labels)"
| "training_loop db (interaction # rest) data labels =
     (case process_interaction db interaction of
        Inl e \<Rightarrow> Inl e
      | Inr None \<Rightarrow> training_loop db rest data labels
      | Inr (Some (feature_vector, fb)) \<Rightarrow>
          training_loop db rest (data @ [feature_vector]) (labels @ [fb]))"

text \<open>
  \<^verbatim>\<open>np.array(xs)\<close>. An array is held as the list of its rows, so that \<^verbatim>\<open>len\<close> of it is
  the length of that list. Of an empty list numpy makes the empty array. Of any other
  list the conversion is numpy's own: it coerces the elements to one dtype (integers to
  floats next to a float, every element to a string next to a string) and can raise
  on rows of different shapes; it is the argument \<open>convert\<close>.
\<close>

definition np_array :: "('a list \<Rightarrow> exn + 'b list) \<Rightarrow> 'a list \<Rightarrow> exn + 'b list" where
  "np_array convert xs = (if xs = [] then Inr [] else convert xs)"

text \<open>
  The whole function: the loop over the interactions, then line 199,
  \<^verbatim>\<open>return np.array(data), np.array(labels)\<close>, converted left to right.
\<close>

definition prepare_training_data ::
  "(pyval list list \<Rightarrow> exn + 'x list) \<Rightarrow> (pyval list \<Rightarrow> exn + 'y list) \<Rightarrow> database
     \<Rightarrow> exn + ('x list \<times> 'y list)" where
  "prepare_training_data convert_rows convert_labels db =
     bind_exn (training_loop db (Interactions db) [] []) (\<lambda>(data, labels).
     bind_exn (np_array convert_rows data) (\<lambda>X.
     bind_exn (np_array convert_labels labels) (\<lambda>y.
       Inr (X, y))))"

section \<open>The model: retraining and prediction\<close>

text \<open>
  The process-wide \<^verbatim>\<open>rf_model\<close> of \<^verbatim>\<open>data_ml.py\<close> and the pickled file at
  \<^verbatim>\<open>MODEL_PATH\<close>. The classifier is the library's: its type is a parameter, and its
  constructor, \<^verbatim>\<open>fit\<close> and \<^verbatim>\<open>predict\<close> are arguments of the functions that call them.
\<close>

record 'm ml_state =
  rf_model :: "'m option"
  model_file :: "'m option"

definition msg_retraining :: string where
  "msg_retraining = ''Retraining the Random Forest model with real user data...''"

definition msg_insufficient :: string where
  "msg_insufficient = ''Insufficient data for model training. Retraining aborted.''"

definition msg_saved :: string where
  "msg_saved = ''Model saved at random_forest_model.pkl.''"

definition msg_retrained :: string where
  "msg_retrained = ''Model retrained and saved successfully.''"

text \<open>
  \<^verbatim>\<open>retrain_model\<close> returns nothing; what tells its two ways of returning apart is what
  it prints. The result is the exception raised or the lines printed, with the state
  it leaves. The new classifier is bound to \<^verbatim>\<open>rf_model\<close> before it is fitted.
\<close>

definition retrain_model ::
  "(pyval list list \<Rightarrow> exn + 'x list) \<Rightarrow> (pyval list \<Rightarrow> exn + 'y list)
     \<Rightarrow> 'm \<Rightarrow> ('m \<Rightarrow> 'x list \<Rightarrow> 'y list \<Rightarrow> exn + 'm) \<Rightarrow> database \<Rightarrow> 'm ml_state
     \<Rightarrow> (exn + string list) \<times> 'm ml_state" where
  "retrain_model convert_rows convert_labels new_classifier fit db st =
     (case prepare_training_data convert_rows convert_labels db of
        Inl e \<Rightarrow> (Inl e, st)
      | Inr (X, y) \<Rightarrow>
          if length X = 0 \<or> length y = 0 then (Inr [msg_retraining, msg_insufficient], st)
          else
            (case fit new_classifier X y of
               Inl e \<Rightarrow> (Inl e, st\<lparr>rf_model := Some new_classifier\<rparr>)
             | Inr fitted \<Rightarrow>
                 (Inr [msg_retraining, msg_saved, msg_retrained],
                  st\<lparr>rf_model := Some fitted, model_file := Some fitted\<rparr>)))"

definition msg_not_loaded :: string where
  "msg_not_loaded = ''Model not loaded. Please ensure the model file exists and is loaded correctly.''"

definition predict_meal_recommendations ::
  "('m \<Rightarrow> pyval list \<Rightarrow> exn + pyval) \<Rightarrow> 'm ml_state \<Rightarrow> pyval list \<Rightarrow> exn + pyval" where
  "predict_meal_recommendations predict st feature_vector =
     (case (case rf_model st of
              None \<Rightarrow> Inl (ValueError msg_not_loaded)
            | Some m \<Rightarrow> predict m feature_vector) of
        Inl e \<Rightarrow> Inl (RuntimeError ''Error during prediction: '' e)
      | Inr prediction \<Rightarrow> Inr prediction)"

section \<open>The recommendation selector in \<^verbatim>\<open>LAUNCHER.py\<close>\<close>

text \<open>
  The names bound at module level in \<^verbatim>\<open>LAUNCHER.py\<close>: its imports, its assignments
  and its functions. \<^verbatim>\<open>rf_model\<close> is a global of \<^verbatim>\<open>data_ml\<close> and is not among the
  names imported from it.
\<close>

definition LAUNCHER_globals :: "string list" where
  "LAUNCHER_globals =
     [''st'', ''folium'', ''folium_static'', ''HeatMap'', ''MarkerCluster'', ''requests'',
      ''ipinfo'', ''Client'', ''datetime'',
      ''init_db'', ''get_or_create_user'', ''record_interaction'', ''save_user_setup'',
      ''save_user_preferences'', ''save_search_query'', ''predict_meal_recommendations'',
      ''prepare_feature_vector'', ''get_user_data'', ''get_recent_search'', ''retrain_model'',
      ''GOOGLE_MAPS_KEY'', ''gmaps'', ''ip_handler'', ''ip_address'', ''details'', ''city'',
      ''country'', ''latitude'', ''longitude'',
      ''show_contribution_matrix'', ''temp_geolocated'', ''temp_target'', ''setup'',
      ''get_restaurant_results'', ''get_location_coordinates'', ''display_results_on_map'',
      ''surprise_me_recommendation'', ''main'']"

text \<open>Line 355: \<^verbatim>\<open>rf_model.predict([feature_vector])[0]\<close>, the name resolved in the module.\<close>

definition launcher_predict ::
  "('m \<Rightarrow> pyval list \<Rightarrow> exn + pyval) \<Rightarrow> 'm ml_state \<Rightarrow> pyval list \<Rightarrow> exn + pyval" where
  "launcher_predict predict st feature_vector =
     (if ''rf_model'' \<in> set LAUNCHER_globals
      then (case rf_model st of None \<Rightarrow> Inl AttributeError | Some m \<Rightarrow> predict m feature_vector)
      else Inl (NameError ''rf_model''))"

text \<open>\<^verbatim>\<open>prediction == 1\<close>: numbers compare by value, \<^verbatim>\<open>True\<close> is 1, nothing else equals 1.\<close>

definition py_eq_int :: "pyval \<Rightarrow> int \<Rightarrow> bool" where
  "py_eq_int v n =
     (case v of
        PInt m \<Rightarrow> m = n
      | PFloat r \<Rightarrow> r = of_int n
      | PBool b \<Rightarrow> (if b then 1 else 0) = n
      | _ \<Rightarrow> False)"

text \<open>Line 358: \<^verbatim>\<open>recent_search['cuisines'] if prediction == 1 else ["restaurant"]\<close>.\<close>

definition select_keywords :: "pyval \<Rightarrow> (string \<rightharpoonup> pyval) \<Rightarrow> exn + pyval" where
  "select_keywords prediction recent_search =
     (if py_eq_int prediction 1
      then (case recent_search ''cuisines'' of None \<Rightarrow> Inl KeyError | Some cuisines \<Rightarrow> Inr cuisines)
      else Inr (PList [PStr ''restaurant'']))"

text \<open>
  \<^verbatim>\<open>surprise_me_recommendation\<close> from its start to the keywords (lines 341 to 358), given
  what \<^verbatim>\<open>get_user_data\<close> and \<^verbatim>\<open>get_recent_search\<close> returned or raised; every exception
  is re-raised as a \<^verbatim>\<open>RuntimeError\<close> (lines 406 and 407).
\<close>

definition surprise_me_keywords ::
  "('m \<Rightarrow> pyval list \<Rightarrow> exn + pyval) \<Rightarrow> 'm ml_state
     \<Rightarrow> exn + (string \<rightharpoonup> pyval) \<Rightarrow> exn + (string \<rightharpoonup> pyval) \<Rightarrow> exn + pyval" where
  "surprise_me_keywords predict st fetched_user fetched_search =
     (case
        bind_exn fetched_user (\<lambda>user_info.
        bind_exn fetched_search (\<lambda>recent_search.
          if dom user_info = {} \<or> dom recent_search = {}
          then Inl (ValueError ''Missing user data or recent search data.'')
          else
            bind_exn (prepare_feature_vector user_info recent_search) (\<lambda>feature_vector.
            bind_exn (launcher_predict predict st feature_vector) (\<lambda>prediction.
              select_keywords prediction recent_search))))
      of
        Inl e \<Rightarrow> Inl (RuntimeError ''An error occurred during recommendation: '' e)
      | Inr keywords \<Rightarrow> Inr keywords)"

section \<open>Auxiliary facts\<close>

lemma bind_exn_Inr_iff:
  "bind_exn m f = Inr y \<longleftrightarrow> (\<exists>x. m = Inr x \<and> f x = Inr y)"
  by (cases m) (simp_all add: bind_exn_def)

lemma length_one_hot: "length (one_hot vocabulary xs) = length vocabulary"
  by (simp add: one_hot_def)

lemma length_one_hot_in:
  "one_hot_in vocabulary container = Inr flags \<Longrightarrow> length flags = length vocabulary"
  by (induction vocabulary arbitrary: flags) (auto simp: bind_exn_Inr_iff)

lemma length_all_cuisines: "length all_cuisines = 8"
  by (simp add: all_cuisines_def)

lemma length_all_tastes: "length all_tastes = 6"
  by (simp add: all_tastes_def)

lemma length_diet_vector: "length (diet_vector d) = 3"
  by (simp add: diet_vector_def)

text \<open>The shape of a vector of the prediction path.\<close>

lemma prepare_feature_vector_shape:
  assumes "prepare_feature_vector user_info recent_search = Inr v"
  shows "\<exists>emotion cv tv p.
           emotion_get (dict_get user_info ''emotion'' (PStr ''neutral'')) = Inr emotion
         \<and> length cv = 8 \<and> length tv = 6 \<and> length p = 2
         \<and> v = [dict_get user_info ''temperature_bias'' (PFloat 0.5),
                 dict_get user_info ''tourist_bias'' (PFloat 0.5), PInt emotion]
                @ cv @ tv @ diet_vector (dict_get recent_search ''diet'' (PStr ''None'')) @ p"
proof -
  from assms obtain emotion cuisines tastes where
    e: "emotion_get (dict_get user_info ''emotion'' (PStr ''neutral'')) = Inr emotion"
    and v: "v = [dict_get user_info ''temperature_bias'' (PFloat 0.5),
                 dict_get user_info ''tourist_bias'' (PFloat 0.5), PInt emotion]
                @ one_hot all_cuisines cuisines @ one_hot all_tastes tastes
                @ diet_vector (dict_get recent_search ''diet'' (PStr ''None''))
                @ [fst (price_pair (dict_get recent_search ''price_range'' (PList [PInt 1, PInt 4]))),
                   snd (price_pair (dict_get recent_search ''price_range'' (PList [PInt 1, PInt 4])))]"
    by (auto simp: prepare_feature_vector_def bind_exn_Inr_iff Let_def case_prod_beta)
  show ?thesis
    using e v length_one_hot [of all_cuisines cuisines] length_one_hot [of all_tastes tastes]
    by (intro exI [of _ emotion] exI [of _ "one_hot all_cuisines cuisines"]
          exI [of _ "one_hot all_tastes tastes"]
          exI [of _ "[fst (price_pair (dict_get recent_search ''price_range'' (PList [PInt 1, PInt 4]))),
                   snd (price_pair (dict_get recent_search ''price_range'' (PList [PInt 1, PInt 4])))]"])
       (simp add: length_all_cuisines length_all_tastes)
qed

lemma training_feature_vector_shape:
  assumes "training_feature_vector tb ob emotion row = Inr v"
  shows "\<exists>cv tv p. length cv = 8 \<and> length tv = 6 \<and> length p = 2
         \<and> v = [tb, ob, PInt emotion] @ cv @ tv @ diet_vector (search_diet row) @ p"
proof -
  from assms obtain cuisines tastes cv tv pmin pmax where
    cv: "one_hot_in all_cuisines cuisines = Inr cv"
    and tv: "one_hot_in all_tastes tastes = Inr tv"
    and v: "v = [tb, ob, PInt emotion] @ cv @ tv @ diet_vector (search_diet row) @ [pmin, pmax]"
    by (auto simp: training_feature_vector_def bind_exn_Inr_iff)
  show ?thesis
    using v length_one_hot_in [OF cv] length_one_hot_in [OF tv]
    by (intro exI [of _ cv] exI [of _ tv] exI [of _ "[pmin, pmax]"])
       (simp add: length_all_cuisines length_all_tastes)
qed

lemma encode_interaction_shape:
  assumes "encode_interaction u row = Inr v"
  shows "\<exists>emotion cv tv p.
           emotion_get (user_emotion u) = Inr emotion
         \<and> length cv = 8 \<and> length tv = 6 \<and> length p = 2
         \<and> v = [user_temperature_bias u, user_tourist_bias u, PInt emotion]
                @ cv @ tv @ diet_vector (search_diet row) @ p"
proof -
  from assms obtain emotion where
    e: "emotion_get (user_emotion u) = Inr emotion"
    and t: "training_feature_vector (user_temperature_bias u) (user_tourist_bias u) emotion row = Inr v"
    by (auto simp: encode_interaction_def bind_exn_Inr_iff)
  from training_feature_vector_shape [OF t] e show ?thesis by blast
qed

lemma emotion_get_range: "emotion_get key = Inr n \<Longrightarrow> n \<in> {0, 1, 2}"
  by (auto simp: emotion_get_def emotion_map_def split: pyval.splits if_splits)

lemma emotion_get_other_string:
  "e \<notin> {''happy'', ''neutral'', ''sad''} \<Longrightarrow> emotion_get (PStr e) = Inr 1"
  by (simp add: emotion_get_def emotion_map_def)

lemma one_hot_in_list: "one_hot_in vocabulary (PList xs) = Inr (one_hot vocabulary xs)"
  by (induction vocabulary) (simp_all add: one_hot_def py_contains_def bind_exn_def)

lemma title_each_strings:
  "title_each (map PStr ss) = Inr (map (\<lambda>s. PStr (title s)) ss)"
  by (induction ss) (simp_all add: py_title_def bind_exn_def)

lemma title_each_title_cased:
  "list_all (\<lambda>s. title s = s) ss \<Longrightarrow> title_each (map PStr ss) = Inr (map PStr ss)"
  by (induction ss) (simp_all add: py_title_def bind_exn_def)

text \<open>The loop body once the user row is found, and the loop over rows that all encode.\<close>

lemma process_interaction_with_user:
  assumes "users_with_id db (interaction_user_id i) = u # us"
  shows "process_interaction db i =
           (case searches_with_user_id db (interaction_user_id i) of
              [] \<Rightarrow> bind_exn (emotion_get (user_emotion u)) (\<lambda>emotion. Inr None)
            | r # rs \<Rightarrow> bind_exn (encode_interaction u (last (r # rs)))
                         (\<lambda>fv. Inr (Some (fv, interaction_feedback i))))"
  using assms
  by (simp add: process_interaction_def encode_interaction_def bind_exn_def
           split: list.splits sum.splits)

lemma training_loop_joinable:
  assumes "\<forall>i \<in> set rows. \<exists>u us emotion.
             users_with_id db (interaction_user_id i) = u # us
           \<and> emotion_get (user_emotion u) = Inr emotion
           \<and> (searches_with_user_id db (interaction_user_id i) \<noteq> [] \<longrightarrow>
                (\<exists>fv. encode_interaction u
                         (last (searches_with_user_id db (interaction_user_id i))) = Inr fv))"
  shows "\<exists>X y. training_loop db rows data labels = Inr (data @ X, labels @ y)
         \<and> y = map interaction_feedback
                 (filter (\<lambda>i. searches_with_user_id db (interaction_user_id i) \<noteq> []) rows)
         \<and> list_all2
             (\<lambda>i fv. \<exists>u us. users_with_id db (interaction_user_id i) = u # us
                  \<and> encode_interaction u
                       (last (searches_with_user_id db (interaction_user_id i))) = Inr fv)
             (filter (\<lambda>i. searches_with_user_id db (interaction_user_id i) \<noteq> []) rows) X"
  using assms
proof (induction rows arbitrary: data labels)
  case Nil
  then show ?case by simp
next
  case (Cons i rows)
  from Cons.prems obtain u us emotion where
    u: "users_with_id db (interaction_user_id i) = u # us"
    and e: "emotion_get (user_emotion u) = Inr emotion"
    and s: "searches_with_user_id db (interaction_user_id i) \<noteq> [] \<longrightarrow>
              (\<exists>fv. encode_interaction u
                       (last (searches_with_user_id db (interaction_user_id i))) = Inr fv)"
    by auto
  from Cons.prems have rest: "\<forall>i \<in> set rows. \<exists>u us emotion.
             users_with_id db (interaction_user_id i) = u # us
           \<and> emotion_get (user_emotion u) = Inr emotion
           \<and> (searches_with_user_id db (interaction_user_id i) \<noteq> [] \<longrightarrow>
                (\<exists>fv. encode_interaction u
                         (last (searches_with_user_id db (interaction_user_id i))) = Inr fv))"
    by simp
  show ?case
  proof (cases "searches_with_user_id db (interaction_user_id i) = []")
    case True
    with u e have p: "process_interaction db i = Inr None"
      by (simp add: process_interaction_with_user bind_exn_def)
    from Cons.IH [OF rest, of data labels] True p show ?thesis by simp
  next
    case False
    with s obtain fv where
      fv: "encode_interaction u (last (searches_with_user_id db (interaction_user_id i))) = Inr fv"
      by blast
    from False obtain r rs where
      rs: "searches_with_user_id db (interaction_user_id i) = r # rs"
      by (cases "searches_with_user_id db (interaction_user_id i)") auto
    from u fv rs have p: "process_interaction db i = Inr (Some (fv, interaction_feedback i))"
      by (simp add: process_interaction_with_user bind_exn_def)
    from Cons.IH [OF rest, of "data @ [fv]" "labels @ [interaction_feedback i]"]
    obtain X y where
      l: "training_loop db rows (data @ [fv]) (labels @ [interaction_feedback i])
            = Inr ((data @ [fv]) @ X, (labels @ [interaction_feedback i]) @ y)"
      and y: "y = map interaction_feedback
                 (filter (\<lambda>i. searches_with_user_id db (interaction_user_id i) \<noteq> []) rows)"
      and X: "list_all2
             (\<lambda>i fv. \<exists>u us. users_with_id db (interaction_user_id i) = u # us
                  \<and> encode_interaction u
                       (last (searches_with_user_id db (interaction_user_id i))) = Inr fv)
             (filter (\<lambda>i. searches_with_user_id db (interaction_user_id i) \<noteq> []) rows) X"
      by blast
    show ?thesis
      using p l y X False u fv
      by (intro exI [of _ "fv # X"] exI [of _ "interaction_feedback i # y"]) simp
  qed
qed

text \<open>When every step succeeds, each path returns the vector built from the steps' results.\<close>

lemma encode_interaction_returns:
  assumes "emotion_get (user_emotion u) = Inr e"
    and "search_cuisines row = Inr c" and "search_tastes row = Inr t"
    and "search_price_range row = Inr p"
    and "one_hot_in all_cuisines c = Inr cv" and "one_hot_in all_tastes t = Inr tv"
    and "py_getitem p 0 = Inr pmin" and "py_getitem p 1 = Inr pmax"
  shows "encode_interaction u row =
           Inr ([user_temperature_bias u, user_tourist_bias u, PInt e]
                @ cv @ tv @ diet_vector (search_diet row) @ [pmin, pmax])"
  using assms
  by (simp add: encode_interaction_def training_feature_vector_def bind_exn_def)

lemma prepare_feature_vector_returns:
  assumes "emotion_get (dict_get user_info ''emotion'' (PStr ''neutral'')) = Inr e"
    and "py_iter (dict_get recent_search ''cuisines'' (PList [])) = Inr cs"
    and "title_each cs = Inr cuisines"
    and "py_iter (dict_get recent_search ''tastes'' (PList [])) = Inr ts"
    and "title_each ts = Inr tastes"
  shows "prepare_feature_vector user_info recent_search =
           Inr ([dict_get user_info ''temperature_bias'' (PFloat 0.5),
                 dict_get user_info ''tourist_bias'' (PFloat 0.5), PInt e]
                @ one_hot all_cuisines cuisines @ one_hot all_tastes tastes
                @ diet_vector (dict_get recent_search ''diet'' (PStr ''None''))
                @ [fst (price_pair (dict_get recent_search ''price_range'' (PList [PInt 1, PInt 4]))),
                   snd (price_pair (dict_get recent_search ''price_range'' (PList [PInt 1, PInt 4])))])"
  using assms
  by (simp add: prepare_feature_vector_def bind_exn_def Let_def case_prod_beta)

lemma emotion_get_hashable: "hashable v \<Longrightarrow> \<exists>n. emotion_get v = Inr n"
  by (cases v) (simp_all add: hashable_def emotion_get_def)

lemma process_interaction_without_user:
  "users_with_id db (interaction_user_id i) = [] \<Longrightarrow> process_interaction db i = Inl IndexError"
  by (simp add: process_interaction_def)

lemma training_loop_raises:
  "i \<in> set rows \<Longrightarrow> process_interaction db i = Inl e
     \<Longrightarrow> \<exists>e'. training_loop db rows data labels = Inl e'"
  by (induction rows arbitrary: data labels) (auto split: sum.splits option.splits)

lemmas eval_defs =
  bind_exn_def title_def is_lower_def is_upper_def to_upper_def to_lower_def
  ascii_lowercase_def ascii_uppercase_def py_contains_def py_iter_def py_getitem_def
  py_title_def dict_get_def all_cuisines_def all_tastes_def emotion_map_def emotion_get_def
  diet_vector_def one_hot_def price_pair_def prepare_feature_vector_def
  user_info_of_row_def recent_search_of_row_def training_feature_vector_def
  encode_interaction_def

lemmas loop_defs =
  prepare_training_data_def np_array_def process_interaction_def users_with_id_def
  searches_with_user_id_def

section \<open>The scenario of the specification\<close>

text \<open>
  C3. For the user state \<open>{temperature_bias: 0.8, tourist_bias: 0.2, emotion: "happy"}\<close>
  and the search \<open>{cuisines: ["italian"], tastes: [], diet: "Vegetarian", price_range: [1, 3]}\<close>,
  \<^verbatim>\<open>prepare_feature_vector\<close> returns the 22 elements
  \<open>[0.8, 0.2, 2, 1,0,0,0,0,0,0,0, 0,0,0,0,0,0, 0,1,0, 1,3]\<close>.
\<close>

theorem scenario_feature_vector:
  "prepare_feature_vector
     [''temperature_bias'' \<mapsto> PFloat 0.8, ''tourist_bias'' \<mapsto> PFloat 0.2,
      ''emotion'' \<mapsto> PStr ''happy'']
     [''cuisines'' \<mapsto> PList [PStr ''italian''], ''tastes'' \<mapsto> PList [],
      ''diet'' \<mapsto> PStr ''Vegetarian'', ''price_range'' \<mapsto> PList [PInt 1, PInt 3]]
   = Inr [PFloat 0.8, PFloat 0.2, PInt 2,
          PInt 1, PInt 0, PInt 0, PInt 0, PInt 0, PInt 0, PInt 0, PInt 0,
          PInt 0, PInt 0, PInt 0, PInt 0, PInt 0, PInt 0,
          PInt 0, PInt 1, PInt 0,
          PInt 1, PInt 3]"
  by (simp add: eval_defs)

section \<open>The two encoding paths compared\<close>

text \<open>
  C1. The vector of the training path and the vector of the prediction path on the same
  user row and search row should be equal. On the rows of the scenario above, whose
  cuisine is written \<open>"italian"\<close>, they are not: the training path tests the stored
  string as it is and leaves the \<open>Italian\<close> flag 0, the prediction path title-cases it
  first and sets the flag.
\<close>

theorem schema_identity_fails_on_lowercase_cuisine:
  "encode_interaction
     \<lparr>user_id = 1, user_temperature_bias = PFloat 0.8, user_tourist_bias = PFloat 0.2,
      user_emotion = PStr ''happy''\<rparr>
     \<lparr>search_user_id = 1, search_cuisines = Inr (PList [PStr ''italian'']),
      search_tastes = Inr (PList []), search_diet = PStr ''Vegetarian'',
      search_price_range = Inr (PList [PInt 1, PInt 3])\<rparr>
   = Inr [PFloat 0.8, PFloat 0.2, PInt 2,
          PInt 0, PInt 0, PInt 0, PInt 0, PInt 0, PInt 0, PInt 0, PInt 0,
          PInt 0, PInt 0, PInt 0, PInt 0, PInt 0, PInt 0,
          PInt 0, PInt 1, PInt 0,
          PInt 1, PInt 3]
   \<and> bind_exn
       (recent_search_of_row
          \<lparr>search_user_id = 1, search_cuisines = Inr (PList [PStr ''italian'']),
           search_tastes = Inr (PList []), search_diet = PStr ''Vegetarian'',
           search_price_range = Inr (PList [PInt 1, PInt 3])\<rparr>)
       (prepare_feature_vector
          (user_info_of_row
             \<lparr>user_id = 1, user_temperature_bias = PFloat 0.8, user_tourist_bias = PFloat 0.2,
              user_emotion = PStr ''happy''\<rparr>))
   = Inr [PFloat 0.8, PFloat 0.2, PInt 2,
          PInt 1, PInt 0, PInt 0, PInt 0, PInt 0, PInt 0, PInt 0, PInt 0,
          PInt 0, PInt 0, PInt 0, PInt 0, PInt 0, PInt 0,
          PInt 0, PInt 1, PInt 0,
          PInt 1, PInt 3]"
  by (simp add: eval_defs)

text \<open>
  C2. Membership in the two vocabularies should be tested after title-casing on both
  paths. The training path tests the raw strings: \<open>"thai"\<close>, \<open>"MEXICAN"\<close> and
  \<open>"sweet"\<close> set no flag there, and set the \<open>Thai\<close>, \<open>Mexican\<close> and \<open>Sweet\<close> flags on
  the prediction path.
\<close>

theorem training_path_tests_raw_strings:
  "training_feature_vector (PFloat 0.5) (PFloat 0.5) 1
     \<lparr>search_user_id = 1, search_cuisines = Inr (PList [PStr ''thai'', PStr ''MEXICAN'']),
      search_tastes = Inr (PList [PStr ''sweet'']), search_diet = PStr ''None'',
      search_price_range = Inr (PList [PInt 1, PInt 4])\<rparr>
   = Inr [PFloat 0.5, PFloat 0.5, PInt 1,
          PInt 0, PInt 0, PInt 0, PInt 0, PInt 0, PInt 0, PInt 0, PInt 0,
          PInt 0, PInt 0, PInt 0, PInt 0, PInt 0, PInt 0,
          PInt 0, PInt 0, PInt 1,
          PInt 1, PInt 4]
   \<and> prepare_feature_vector
       [''temperature_bias'' \<mapsto> PFloat 0.5, ''tourist_bias'' \<mapsto> PFloat 0.5,
        ''emotion'' \<mapsto> PStr ''neutral'']
       [''cuisines'' \<mapsto> PList [PStr ''thai'', PStr ''MEXICAN''],
        ''tastes'' \<mapsto> PList [PStr ''sweet''],
        ''diet'' \<mapsto> PStr ''None'', ''price_range'' \<mapsto> PList [PInt 1, PInt 4]]
   = Inr [PFloat 0.5, PFloat 0.5, PInt 1,
          PInt 0, PInt 0, PInt 1, PInt 0, PInt 0, PInt 0, PInt 0, PInt 1,
          PInt 1, PInt 0, PInt 0, PInt 0, PInt 0, PInt 0,
          PInt 0, PInt 0, PInt 1,
          PInt 1, PInt 4]"
  by (simp add: eval_defs)

text \<open>
  C8. A price range that is not a pair should fall back to \<open>[1, 4]\<close> on both paths.
  The training path subscripts it unguarded: \<open>[2]\<close> raises \<^verbatim>\<open>IndexError\<close> and
  \<open>[2, 3, 4]\<close> yields \<open>2, 3\<close>; the prediction path falls back on \<open>[2]\<close>.
\<close>

theorem training_path_has_no_price_fallback:
  "training_feature_vector (PFloat 0.5) (PFloat 0.5) 1
     \<lparr>search_user_id = 1, search_cuisines = Inr (PList []), search_tastes = Inr (PList []),
      search_diet = PStr ''None'', search_price_range = Inr (PList [PInt 2])\<rparr>
   = Inl IndexError
   \<and> training_feature_vector (PFloat 0.5) (PFloat 0.5) 1
     \<lparr>search_user_id = 1, search_cuisines = Inr (PList []), search_tastes = Inr (PList []),
      search_diet = PStr ''None'', search_price_range = Inr (PList [PInt 2, PInt 3, PInt 4])\<rparr>
   = Inr [PFloat 0.5, PFloat 0.5, PInt 1,
          PInt 0, PInt 0, PInt 0, PInt 0, PInt 0, PInt 0, PInt 0, PInt 0,
          PInt 0, PInt 0, PInt 0, PInt 0, PInt 0, PInt 0,
          PInt 0, PInt 0, PInt 1,
          PInt 2, PInt 3]
   \<and> prepare_feature_vector
       [''temperature_bias'' \<mapsto> PFloat 0.5, ''tourist_bias'' \<mapsto> PFloat 0.5,
        ''emotion'' \<mapsto> PStr ''neutral'']
       [''cuisines'' \<mapsto> PList [], ''tastes'' \<mapsto> PList [],
        ''diet'' \<mapsto> PStr ''None'', ''price_range'' \<mapsto> PList [PInt 2]]
   = Inr [PFloat 0.5, PFloat 0.5, PInt 1,
          PInt 0, PInt 0, PInt 0, PInt 0, PInt 0, PInt 0, PInt 0, PInt 0,
          PInt 0, PInt 0, PInt 0, PInt 0, PInt 0, PInt 0,
          PInt 0, PInt 0, PInt 1,
          PInt 1, PInt 4]"
  by (simp add: eval_defs)

text \<open>
  Where the two paths do agree: on a search row whose cuisines and tastes are lists of
  strings that title-casing leaves unchanged (as every word of the two vocabularies
  is) and whose price range is a two-element list, both produce the same result.
\<close>

lemma paths_agree_on_title_cased_pairs:
  assumes "search_cuisines row = Inr (PList (map PStr cs))"
    and "search_tastes row = Inr (PList (map PStr ts))"
    and "search_price_range row = Inr (PList [price_min, price_max])"
    and "list_all (\<lambda>s. title s = s) cs"
    and "list_all (\<lambda>s. title s = s) ts"
  shows "bind_exn (recent_search_of_row row) (prepare_feature_vector (user_info_of_row u))
           = encode_interaction u row"
  using assms
  by (simp add: recent_search_of_row_def prepare_feature_vector_def user_info_of_row_def
        encode_interaction_def training_feature_vector_def bind_exn_def dict_get_def
        py_iter_def py_getitem_def price_pair_def one_hot_in_list title_each_title_cased
      split: sum.splits)

lemma vocabulary_is_title_cased:
  "list_all (\<lambda>s. title s = s) all_cuisines \<and> list_all (\<lambda>s. title s = s) all_tastes"
  by (simp add: eval_defs)

section \<open>Retraining and prediction\<close>

text \<open>
  C4. When the extracted dataset is empty (in particular when there is no interaction
  at all, or when the loop skipped every one), \<^verbatim>\<open>retrain_model\<close> prints that the data
  is insufficient and returns with the loaded model and the saved model file exactly
  as they were.
\<close>

theorem retrain_on_empty_data_keeps_model:
  "(prepare_training_data convert_rows convert_labels db = Inr (X, y) \<and> (X = [] \<or> y = [])
      \<longrightarrow> retrain_model convert_rows convert_labels new_classifier fit db st
            = (Inr [msg_retraining, msg_insufficient], st))
   \<and> (Interactions db = []
      \<longrightarrow> retrain_model convert_rows convert_labels new_classifier fit db st
            = (Inr [msg_retraining, msg_insufficient], st))
   \<and> (training_loop db (Interactions db) [] [] = Inr ([], [])
      \<longrightarrow> retrain_model convert_rows convert_labels new_classifier fit db st
            = (Inr [msg_retraining, msg_insufficient], st))"
  by (auto simp: retrain_model_def prepare_training_data_def np_array_def bind_exn_def)

theorem retrain_on_empty_data_keeps_model_witness:
  "prepare_training_data (\<lambda>rows. Inr rows) (\<lambda>labels. Inr labels)
     \<lparr>Users = [\<lparr>user_id = 1, user_temperature_bias = PFloat 0.5, user_tourist_bias = PFloat 0.5,
                user_emotion = PStr ''neutral''\<rparr>],
      Searches = [],
      Interactions = [\<lparr>interaction_user_id = 1, interaction_feedback = PInt 1\<rparr>]\<rparr>
     = Inr ([], [])
   \<and> retrain_model (\<lambda>rows. Inr rows) (\<lambda>labels. Inr labels) (0 :: nat) (\<lambda>c X y. Inr (Suc c))
       \<lparr>Users = [\<lparr>user_id = 1, user_temperature_bias = PFloat 0.5, user_tourist_bias = PFloat 0.5,
                  user_emotion = PStr ''neutral''\<rparr>],
        Searches = [],
        Interactions = [\<lparr>interaction_user_id = 1, interaction_feedback = PInt 1\<rparr>]\<rparr>
       \<lparr>rf_model = Some 7, model_file = Some 7\<rparr>
     = (Inr [msg_retraining, msg_insufficient], \<lparr>rf_model = Some 7, model_file = Some 7\<rparr>)"
proof -
  have d: "prepare_training_data (\<lambda>rows. Inr rows) (\<lambda>labels. Inr labels)
     \<lparr>Users = [\<lparr>user_id = 1, user_temperature_bias = PFloat 0.5, user_tourist_bias = PFloat 0.5,
                user_emotion = PStr ''neutral''\<rparr>],
      Searches = [],
      Interactions = [\<lparr>interaction_user_id = 1, interaction_feedback = PInt 1\<rparr>]\<rparr>
     = Inr ([] :: pyval list list, [] :: pyval list)"
    by (simp add: loop_defs eval_defs)
  show ?thesis
    using d retrain_on_empty_data_keeps_model
      [where convert_rows = "\<lambda>rows. Inr rows" and convert_labels = "\<lambda>labels. Inr labels"
         and db = "\<lparr>Users = [\<lparr>user_id = 1, user_temperature_bias = PFloat 0.5,
                    user_tourist_bias = PFloat 0.5, user_emotion = PStr ''neutral''\<rparr>],
                  Searches = [],
                  Interactions = [\<lparr>interaction_user_id = 1, interaction_feedback = PInt 1\<rparr>]\<rparr>"
         and X = "[] :: pyval list list" and y = "[] :: pyval list"
         and new_classifier = "0 :: nat" and fit = "\<lambda>c X y. Inr (Suc c)"
         and st = "\<lparr>rf_model = Some 7, model_file = Some 7\<rparr>"]
    by simp
qed

text \<open>
  C5. With no model loaded, prediction fails instead of returning a prediction:
  \<^verbatim>\<open>predict_meal_recommendations\<close> raises the \<^verbatim>\<open>RuntimeError\<close> that wraps its
  "Model not loaded" \<^verbatim>\<open>ValueError\<close>, and line 355 of \<^verbatim>\<open>LAUNCHER.py\<close> raises too.
\<close>

theorem predict_without_model_fails:
  "rf_model st = None \<Longrightarrow>
     predict_meal_recommendations predict st feature_vector
       = Inl (RuntimeError ''Error during prediction: '' (ValueError msg_not_loaded))
   \<and> launcher_predict predict st feature_vector = Inl (NameError ''rf_model'')"
  by (simp add: predict_meal_recommendations_def launcher_predict_def LAUNCHER_globals_def)

theorem predict_without_model_fails_witness:
  "rf_model \<lparr>rf_model = None :: nat option, model_file = None\<rparr> = None
   \<and> predict_meal_recommendations (\<lambda>m x. Inr (PInt 1))
        \<lparr>rf_model = None :: nat option, model_file = None\<rparr> [PFloat 0.5]
       = Inl (RuntimeError ''Error during prediction: '' (ValueError msg_not_loaded))
   \<and> launcher_predict (\<lambda>m x. Inr (PInt 1))
        \<lparr>rf_model = None :: nat option, model_file = None\<rparr> [PFloat 0.5]
       = Inl (NameError ''rf_model'')"
  using predict_without_model_fails
    [of "\<lparr>rf_model = None :: nat option, model_file = None\<rparr>" "\<lambda>m x. Inr (PInt 1)" "[PFloat 0.5]"]
  by simp

section \<open>The recommendation selector\<close>

text \<open>
  C6. The keywords should be the recent search's cuisine list when the prediction is 1
  and \<open>["restaurant"]\<close> otherwise. \<^verbatim>\<open>surprise_me_recommendation\<close> does not get that far:
  for a user and a search that are both on file, and with a model loaded in \<^verbatim>\<open>data_ml\<close>
  that predicts 1 for their vector, line 355 raises \<^verbatim>\<open>NameError\<close> and the function
  raises the \<^verbatim>\<open>RuntimeError\<close> that wraps it, where \<^verbatim>\<open>predict_meal_recommendations\<close>
  (imported, never called) returns 1 and line 358 would select the cuisine list.
\<close>

theorem surprise_me_raises_before_keywords:
  "surprise_me_keywords (\<lambda>m x. Inr (PInt 1))
     \<lparr>rf_model = Some (0 :: nat), model_file = Some 0\<rparr>
     (Inr [''temperature_bias'' \<mapsto> PFloat 0.8, ''tourist_bias'' \<mapsto> PFloat 0.2,
           ''emotion'' \<mapsto> PStr ''happy''])
     (Inr [''cuisines'' \<mapsto> PList [PStr ''Italian''], ''tastes'' \<mapsto> PList [],
           ''diet'' \<mapsto> PStr ''Vegetarian'', ''price_range'' \<mapsto> PList [PInt 1, PInt 3]])
   = Inl (RuntimeError ''An error occurred during recommendation: '' (NameError ''rf_model''))
   \<and> predict_meal_recommendations (\<lambda>m x. Inr (PInt 1))
       \<lparr>rf_model = Some (0 :: nat), model_file = Some 0\<rparr>
       [PFloat 0.8, PFloat 0.2, PInt 2,
        PInt 1, PInt 0, PInt 0, PInt 0, PInt 0, PInt 0, PInt 0, PInt 0,
        PInt 0, PInt 0, PInt 0, PInt 0, PInt 0, PInt 0,
        PInt 0, PInt 1, PInt 0,
        PInt 1, PInt 3]
     = Inr (PInt 1)
   \<and> select_keywords (PInt 1)
       [''cuisines'' \<mapsto> PList [PStr ''Italian''], ''tastes'' \<mapsto> PList [],
        ''diet'' \<mapsto> PStr ''Vegetarian'', ''price_range'' \<mapsto> PList [PInt 1, PInt 3]]
     = Inr (PList [PStr ''Italian''])"
  by (simp add: surprise_me_keywords_def launcher_predict_def LAUNCHER_globals_def
        predict_meal_recommendations_def select_keywords_def py_eq_int_def eval_defs)

text \<open>The same on every input: the function never gets as far as the keywords.\<close>

lemma surprise_me_keywords_always_raises:
  "\<exists>e. surprise_me_keywords predict st fetched_user fetched_search
         = Inl (RuntimeError ''An error occurred during recommendation: '' e)"
  by (cases fetched_user; cases fetched_search;
      cases "prepare_feature_vector (projr fetched_user) (projr fetched_search)")
     (simp_all add: surprise_me_keywords_def bind_exn_def launcher_predict_def LAUNCHER_globals_def)

section \<open>Diet flags and the emotion code\<close>

text \<open>
  C7. The diet flags are ordered \<open>[Vegan, Vegetarian, None]\<close>. For each of the three
  valid diets exactly one flag is 1, the one of that diet; for every other value all
  three are 0. Whatever the diet, each path returns a vector of 22 elements with these
  flags at positions 17 to 19, whenever the other fields of its input encode; on the
  prediction path a search without the key \<open>diet\<close> gets the flags of \<open>"None"\<close>.
\<close>

theorem diet_flags_on_both_paths:
  "diet_vector (PStr ''Vegan'') = [PInt 1, PInt 0, PInt 0]
   \<and> diet_vector (PStr ''Vegetarian'') = [PInt 0, PInt 1, PInt 0]
   \<and> diet_vector (PStr ''None'') = [PInt 0, PInt 0, PInt 1]
   \<and> (diet \<notin> {PStr ''None'', PStr ''Vegetarian'', PStr ''Vegan''}
        \<longrightarrow> diet_vector diet = [PInt 0, PInt 0, PInt 0])
   \<and> length (filter (\<lambda>flag. flag = PInt 1) (diet_vector diet))
        = (if diet \<in> {PStr ''None'', PStr ''Vegetarian'', PStr ''Vegan''} then 1 else 0)
   \<and> (emotion_get (user_emotion u) = Inr e
        \<and> search_cuisines row = Inr c \<and> search_tastes row = Inr t
        \<and> search_price_range row = Inr p
        \<and> one_hot_in all_cuisines c = Inr cv \<and> one_hot_in all_tastes t = Inr tv
        \<and> py_getitem p 0 = Inr pmin \<and> py_getitem p 1 = Inr pmax
        \<longrightarrow> (\<exists>v. encode_interaction u (row\<lparr>search_diet := diet\<rparr>) = Inr v
                 \<and> length v = 22 \<and> take 3 (drop 17 v) = diet_vector diet))
   \<and> (emotion_get (dict_get user_info ''emotion'' (PStr ''neutral'')) = Inr e'
        \<and> py_iter (dict_get recent_search ''cuisines'' (PList [])) = Inr cs
        \<and> title_each cs = Inr cuisines
        \<and> py_iter (dict_get recent_search ''tastes'' (PList [])) = Inr ts
        \<and> title_each ts = Inr tastes
        \<longrightarrow> (\<exists>w. prepare_feature_vector user_info (recent_search(''diet'' \<mapsto> diet)) = Inr w
                 \<and> length w = 22 \<and> take 3 (drop 17 w) = diet_vector diet)
          \<and> (recent_search ''diet'' = None
               \<longrightarrow> (\<exists>w. prepare_feature_vector user_info recent_search = Inr w
                        \<and> length w = 22 \<and> take 3 (drop 17 w) = [PInt 0, PInt 0, PInt 1])))"
proof -
  have flags: "diet_vector (PStr ''Vegan'') = [PInt 1, PInt 0, PInt 0]
      \<and> diet_vector (PStr ''Vegetarian'') = [PInt 0, PInt 1, PInt 0]
      \<and> diet_vector (PStr ''None'') = [PInt 0, PInt 0, PInt 1]"
    by (simp add: diet_vector_def)
  have other: "diet \<notin> {PStr ''None'', PStr ''Vegetarian'', PStr ''Vegan''}
      \<longrightarrow> diet_vector diet = [PInt 0, PInt 0, PInt 0]"
    by (simp add: diet_vector_def)
  have count: "length (filter (\<lambda>flag. flag = PInt 1) (diet_vector diet))
        = (if diet \<in> {PStr ''None'', PStr ''Vegetarian'', PStr ''Vegan''} then 1 else 0)"
    by (auto simp: diet_vector_def)
  have training: "\<exists>v. encode_interaction u (row\<lparr>search_diet := diet\<rparr>) = Inr v
                 \<and> length v = 22 \<and> take 3 (drop 17 v) = diet_vector diet"
    if h: "emotion_get (user_emotion u) = Inr e
        \<and> search_cuisines row = Inr c \<and> search_tastes row = Inr t
        \<and> search_price_range row = Inr p
        \<and> one_hot_in all_cuisines c = Inr cv \<and> one_hot_in all_tastes t = Inr tv
        \<and> py_getitem p 0 = Inr pmin \<and> py_getitem p 1 = Inr pmax"
  proof -
    have "encode_interaction u (row\<lparr>search_diet := diet\<rparr>) =
           Inr ([user_temperature_bias u, user_tourist_bias u, PInt e]
                @ cv @ tv @ diet_vector (search_diet (row\<lparr>search_diet := diet\<rparr>)) @ [pmin, pmax])"
      using h by (intro encode_interaction_returns [where c = c and t = t and p = p]) simp_all
    moreover have "length cv = 8" "length tv = 6"
      using h length_one_hot_in [of all_cuisines c cv] length_one_hot_in [of all_tastes t tv]
      by (simp_all add: length_all_cuisines length_all_tastes)
    ultimately show ?thesis by (simp add: length_diet_vector)
  qed
  have prediction: "(\<exists>w. prepare_feature_vector user_info (recent_search(''diet'' \<mapsto> diet)) = Inr w
                 \<and> length w = 22 \<and> take 3 (drop 17 w) = diet_vector diet)
          \<and> (recent_search ''diet'' = None
               \<longrightarrow> (\<exists>w. prepare_feature_vector user_info recent_search = Inr w
                        \<and> length w = 22 \<and> take 3 (drop 17 w) = [PInt 0, PInt 0, PInt 1]))"
    if h: "emotion_get (dict_get user_info ''emotion'' (PStr ''neutral'')) = Inr e'
        \<and> py_iter (dict_get recent_search ''cuisines'' (PList [])) = Inr cs
        \<and> title_each cs = Inr cuisines
        \<and> py_iter (dict_get recent_search ''tastes'' (PList [])) = Inr ts
        \<and> title_each ts = Inr tastes"
  proof -
    have "prepare_feature_vector user_info (recent_search(''diet'' \<mapsto> diet)) =
           Inr ([dict_get user_info ''temperature_bias'' (PFloat 0.5),
                 dict_get user_info ''tourist_bias'' (PFloat 0.5), PInt e']
                @ one_hot all_cuisines cuisines @ one_hot all_tastes tastes
                @ diet_vector (dict_get (recent_search(''diet'' \<mapsto> diet)) ''diet'' (PStr ''None''))
                @ [fst (price_pair (dict_get (recent_search(''diet'' \<mapsto> diet)) ''price_range'' (PList [PInt 1, PInt 4]))),
                   snd (price_pair (dict_get (recent_search(''diet'' \<mapsto> diet)) ''price_range'' (PList [PInt 1, PInt 4])))])"
      using h by (intro prepare_feature_vector_returns [where cs = cs and ts = ts])
                 (simp_all add: dict_get_def)
    then have a: "\<exists>w. prepare_feature_vector user_info (recent_search(''diet'' \<mapsto> diet)) = Inr w
                 \<and> length w = 22 \<and> take 3 (drop 17 w) = diet_vector diet"
      by (simp add: length_one_hot length_all_cuisines length_all_tastes length_diet_vector
            dict_get_def)
    have "prepare_feature_vector user_info recent_search =
           Inr ([dict_get user_info ''temperature_bias'' (PFloat 0.5),
                 dict_get user_info ''tourist_bias'' (PFloat 0.5), PInt e']
                @ one_hot all_cuisines cuisines @ one_hot all_tastes tastes
                @ diet_vector (dict_get recent_search ''diet'' (PStr ''None''))
                @ [fst (price_pair (dict_get recent_search ''price_range'' (PList [PInt 1, PInt 4]))),
                   snd (price_pair (dict_get recent_search ''price_range'' (PList [PInt 1, PInt 4])))])"
      using h by (intro prepare_feature_vector_returns [where cs = cs and ts = ts]) simp_all
    then have b: "recent_search ''diet'' = None
               \<longrightarrow> (\<exists>w. prepare_feature_vector user_info recent_search = Inr w
                        \<and> length w = 22 \<and> take 3 (drop 17 w) = [PInt 0, PInt 0, PInt 1])"
      by (simp add: length_one_hot length_all_cuisines length_all_tastes length_diet_vector
            dict_get_def diet_vector_def)
    from a b show ?thesis by blast
  qed
  from flags other count training prediction show ?thesis by blast
qed

theorem diet_flags_on_both_paths_witness:
  "(\<exists>v. encode_interaction
           \<lparr>user_id = 1, user_temperature_bias = PFloat 0.5, user_tourist_bias = PFloat 0.5,
            user_emotion = PStr ''neutral''\<rparr>
           (\<lparr>search_user_id = 1, search_cuisines = Inr (PList []), search_tastes = Inr (PList []),
             search_diet = PStr ''None'', search_price_range = Inr (PList [PInt 1, PInt 4])\<rparr>
              \<lparr>search_diet := PStr ''Vegan''\<rparr>) = Inr v
        \<and> length v = 22 \<and> take 3 (drop 17 v) = [PInt 1, PInt 0, PInt 0])
   \<and> (\<exists>w. prepare_feature_vector
           [''temperature_bias'' \<mapsto> PFloat 0.5, ''tourist_bias'' \<mapsto> PFloat 0.5,
            ''emotion'' \<mapsto> PStr ''neutral'']
           ([''cuisines'' \<mapsto> PList [], ''tastes'' \<mapsto> PList [],
             ''price_range'' \<mapsto> PList [PInt 1, PInt 4]](''diet'' \<mapsto> PStr ''Keto'')) = Inr w
        \<and> length w = 22 \<and> take 3 (drop 17 w) = [PInt 0, PInt 0, PInt 0])
   \<and> (\<exists>w. prepare_feature_vector
           [''temperature_bias'' \<mapsto> PFloat 0.5, ''tourist_bias'' \<mapsto> PFloat 0.5,
            ''emotion'' \<mapsto> PStr ''neutral'']
           [''cuisines'' \<mapsto> PList [], ''tastes'' \<mapsto> PList [],
            ''price_range'' \<mapsto> PList [PInt 1, PInt 4]] = Inr w
        \<and> length w = 22 \<and> take 3 (drop 17 w) = [PInt 0, PInt 0, PInt 1])"
proof -
  have training: "\<exists>v. encode_interaction
           \<lparr>user_id = 1, user_temperature_bias = PFloat 0.5, user_tourist_bias = PFloat 0.5,
            user_emotion = PStr ''neutral''\<rparr>
           (\<lparr>search_user_id = 1, search_cuisines = Inr (PList []), search_tastes = Inr (PList []),
             search_diet = PStr ''None'', search_price_range = Inr (PList [PInt 1, PInt 4])\<rparr>
              \<lparr>search_diet := PStr ''Vegan''\<rparr>) = Inr v
        \<and> length v = 22 \<and> take 3 (drop 17 v) = [PInt 1, PInt 0, PInt 0]"
    using diet_flags_on_both_paths
      [where diet = "PStr ''Vegan''"
         and u = "\<lparr>user_id = 1, user_temperature_bias = PFloat 0.5, user_tourist_bias = PFloat 0.5,
                   user_emotion = PStr ''neutral''\<rparr>"
         and row = "\<lparr>search_user_id = 1, search_cuisines = Inr (PList []),
                     search_tastes = Inr (PList []), search_diet = PStr ''None'',
                     search_price_range = Inr (PList [PInt 1, PInt 4])\<rparr>"
         and e = 1 and c = "PList []" and t = "PList []" and p = "PList [PInt 1, PInt 4]"
         and cv = "[PInt 0, PInt 0, PInt 0, PInt 0, PInt 0, PInt 0, PInt 0, PInt 0]"
         and tv = "[PInt 0, PInt 0, PInt 0, PInt 0, PInt 0, PInt 0]"
         and pmin = "PInt 1" and pmax = "PInt 4"]
    by (simp add: eval_defs)
  have prediction: "(\<exists>w. prepare_feature_vector
           [''temperature_bias'' \<mapsto> PFloat 0.5, ''tourist_bias'' \<mapsto> PFloat 0.5,
            ''emotion'' \<mapsto> PStr ''neutral'']
           ([''cuisines'' \<mapsto> PList [], ''tastes'' \<mapsto> PList [],
             ''price_range'' \<mapsto> PList [PInt 1, PInt 4]](''diet'' \<mapsto> PStr ''Keto'')) = Inr w
        \<and> length w = 22 \<and> take 3 (drop 17 w) = [PInt 0, PInt 0, PInt 0])
   \<and> (\<exists>w. prepare_feature_vector
           [''temperature_bias'' \<mapsto> PFloat 0.5, ''tourist_bias'' \<mapsto> PFloat 0.5,
            ''emotion'' \<mapsto> PStr ''neutral'']
           [''cuisines'' \<mapsto> PList [], ''tastes'' \<mapsto> PList [],
            ''price_range'' \<mapsto> PList [PInt 1, PInt 4]] = Inr w
        \<and> length w = 22 \<and> take 3 (drop 17 w) = [PInt 0, PInt 0, PInt 1])"
    using diet_flags_on_both_paths
      [where diet = "PStr ''Keto''"
         and user_info = "[''temperature_bias'' \<mapsto> PFloat 0.5, ''tourist_bias'' \<mapsto> PFloat 0.5,
                           ''emotion'' \<mapsto> PStr ''neutral'']"
         and recent_search = "[''cuisines'' \<mapsto> PList [], ''tastes'' \<mapsto> PList [],
                               ''price_range'' \<mapsto> PList [PInt 1, PInt 4]]"
         and e' = 1 and cs = "[]" and cuisines = "[]" and ts = "[]" and tastes = "[]"]
    by (simp add: eval_defs)
  from training prediction show ?thesis by blast
qed

text \<open>
  C10. An emotion that is a string other than \<open>happy\<close>, \<open>neutral\<close>, \<open>sad\<close>, or that is
  NULL or absent, is encoded as 1 and never makes a path raise: with such an emotion
  each path returns a vector of 22 elements whose third element is 1, whenever the
  fields of the search encode. The third element of every vector either path returns
  is 0, 1 or 2.
\<close>

theorem unknown_emotion_encodes_as_neutral:
  "(e \<notin> {''happy'', ''neutral'', ''sad''} \<longrightarrow> emotion_get (PStr e) = Inr 1)
   \<and> emotion_get PNone = Inr 1
   \<and> ((emotion = PNone \<or> emotion = PStr e \<and> e \<notin> {''happy'', ''neutral'', ''sad''})
        \<and> search_cuisines row = Inr c \<and> search_tastes row = Inr t
        \<and> search_price_range row = Inr p
        \<and> one_hot_in all_cuisines c = Inr cv \<and> one_hot_in all_tastes t = Inr tv
        \<and> py_getitem p 0 = Inr pmin \<and> py_getitem p 1 = Inr pmax
        \<longrightarrow> (\<exists>v. encode_interaction (u\<lparr>user_emotion := emotion\<rparr>) row = Inr v
                 \<and> length v = 22 \<and> v ! 2 = PInt 1))
   \<and> ((stored = None \<or> stored = Some PNone
          \<or> stored = Some (PStr e) \<and> e \<notin> {''happy'', ''neutral'', ''sad''})
        \<and> py_iter (dict_get recent_search ''cuisines'' (PList [])) = Inr cs
        \<and> title_each cs = Inr cuisines
        \<and> py_iter (dict_get recent_search ''tastes'' (PList [])) = Inr ts
        \<and> title_each ts = Inr tastes
        \<longrightarrow> (\<exists>w. prepare_feature_vector (user_info(''emotion'' := stored)) recent_search = Inr w
                 \<and> length w = 22 \<and> w ! 2 = PInt 1))
   \<and> (encode_interaction u row = Inr v' \<longrightarrow> v' ! 2 \<in> {PInt 0, PInt 1, PInt 2})
   \<and> (prepare_feature_vector user_info recent_search = Inr w'
        \<longrightarrow> w' ! 2 \<in> {PInt 0, PInt 1, PInt 2})"
proof -
  have str: "e \<notin> {''happy'', ''neutral'', ''sad''} \<longrightarrow> emotion_get (PStr e) = Inr 1"
    by (simp add: emotion_get_other_string)
  have none: "emotion_get PNone = Inr 1"
    by (simp add: emotion_get_def)
  have training: "\<exists>v. encode_interaction (u\<lparr>user_emotion := emotion\<rparr>) row = Inr v
                 \<and> length v = 22 \<and> v ! 2 = PInt 1"
    if h: "(emotion = PNone \<or> emotion = PStr e \<and> e \<notin> {''happy'', ''neutral'', ''sad''})
        \<and> search_cuisines row = Inr c \<and> search_tastes row = Inr t
        \<and> search_price_range row = Inr p
        \<and> one_hot_in all_cuisines c = Inr cv \<and> one_hot_in all_tastes t = Inr tv
        \<and> py_getitem p 0 = Inr pmin \<and> py_getitem p 1 = Inr pmax"
  proof -
    from h str none have g: "emotion_get (user_emotion (u\<lparr>user_emotion := emotion\<rparr>)) = Inr 1"
      by auto
    have "encode_interaction (u\<lparr>user_emotion := emotion\<rparr>) row =
           Inr ([user_temperature_bias (u\<lparr>user_emotion := emotion\<rparr>),
                 user_tourist_bias (u\<lparr>user_emotion := emotion\<rparr>), PInt 1]
                @ cv @ tv @ diet_vector (search_diet row) @ [pmin, pmax])"
      using g h by (intro encode_interaction_returns [where c = c and t = t and p = p]) simp_all
    moreover have "length cv = 8" "length tv = 6"
      using h length_one_hot_in [of all_cuisines c cv] length_one_hot_in [of all_tastes t tv]
      by (simp_all add: length_all_cuisines length_all_tastes)
    ultimately show ?thesis by (simp add: length_diet_vector)
  qed
  have prediction: "\<exists>w. prepare_feature_vector (user_info(''emotion'' := stored)) recent_search = Inr w
                 \<and> length w = 22 \<and> w ! 2 = PInt 1"
    if h: "(stored = None \<or> stored = Some PNone
          \<or> stored = Some (PStr e) \<and> e \<notin> {''happy'', ''neutral'', ''sad''})
        \<and> py_iter (dict_get recent_search ''cuisines'' (PList [])) = Inr cs
        \<and> title_each cs = Inr cuisines
        \<and> py_iter (dict_get recent_search ''tastes'' (PList [])) = Inr ts
        \<and> title_each ts = Inr tastes"
  proof -
    from h str none
    have g: "emotion_get (dict_get (user_info(''emotion'' := stored)) ''emotion'' (PStr ''neutral''))
               = Inr 1"
      by (auto simp: dict_get_def emotion_get_def emotion_map_def)
    have "prepare_feature_vector (user_info(''emotion'' := stored)) recent_search =
           Inr ([dict_get (user_info(''emotion'' := stored)) ''temperature_bias'' (PFloat 0.5),
                 dict_get (user_info(''emotion'' := stored)) ''tourist_bias'' (PFloat 0.5), PInt 1]
                @ one_hot all_cuisines cuisines @ one_hot all_tastes tastes
                @ diet_vector (dict_get recent_search ''diet'' (PStr ''None''))
                @ [fst (price_pair (dict_get recent_search ''price_range'' (PList [PInt 1, PInt 4]))),
                   snd (price_pair (dict_get recent_search ''price_range'' (PList [PInt 1, PInt 4])))])"
      using g h by (intro prepare_feature_vector_returns [where cs = cs and ts = ts]) simp_all
    then show ?thesis
      by (simp add: length_one_hot length_all_cuisines length_all_tastes length_diet_vector)
  qed
  have range_training: "v' ! 2 \<in> {PInt 0, PInt 1, PInt 2}" if "encode_interaction u row = Inr v'"
  proof -
    from encode_interaction_shape [OF that] obtain n rest where
      g: "emotion_get (user_emotion u) = Inr n"
      and v: "v' = [user_temperature_bias u, user_tourist_bias u, PInt n] @ rest"
      by blast
    from v have "v' ! 2 = PInt n" by simp
    with emotion_get_range [OF g] show ?thesis by auto
  qed
  have range_prediction: "w' ! 2 \<in> {PInt 0, PInt 1, PInt 2}"
    if "prepare_feature_vector user_info recent_search = Inr w'"
  proof -
    from prepare_feature_vector_shape [OF that] obtain n rest where
      g: "emotion_get (dict_get user_info ''emotion'' (PStr ''neutral'')) = Inr n"
      and w: "w' = [dict_get user_info ''temperature_bias'' (PFloat 0.5),
                    dict_get user_info ''tourist_bias'' (PFloat 0.5), PInt n] @ rest"
      by blast
    from w have "w' ! 2 = PInt n" by simp
    with emotion_get_range [OF g] show ?thesis by auto
  qed
  from str none training prediction range_training range_prediction show ?thesis by blast
qed

theorem unknown_emotion_encodes_as_neutral_witness:
  "(\<exists>v. encode_interaction
           (\<lparr>user_id = 1, user_temperature_bias = PFloat 0.5, user_tourist_bias = PFloat 0.5,
             user_emotion = PStr ''happy''\<rparr>\<lparr>user_emotion := PStr ''angry''\<rparr>)
           \<lparr>search_user_id = 1, search_cuisines = Inr (PList []), search_tastes = Inr (PList []),
            search_diet = PStr ''None'', search_price_range = Inr (PList [PInt 2, PInt 3])\<rparr> = Inr v
        \<and> length v = 22 \<and> v ! 2 = PInt 1)
   \<and> (\<exists>w. prepare_feature_vector
           ([''temperature_bias'' \<mapsto> PFloat 0.5, ''tourist_bias'' \<mapsto> PFloat 0.5,
             ''emotion'' \<mapsto> PStr ''happy''](''emotion'' := None))
           [''cuisines'' \<mapsto> PList [], ''tastes'' \<mapsto> PList []] = Inr w
        \<and> length w = 22 \<and> w ! 2 = PInt 1)
   \<and> (\<exists>w. prepare_feature_vector
           ([''temperature_bias'' \<mapsto> PFloat 0.5, ''tourist_bias'' \<mapsto> PFloat 0.5,
             ''emotion'' \<mapsto> PStr ''happy''](''emotion'' := Some (PStr ''Happy'')))
           [''cuisines'' \<mapsto> PList [], ''tastes'' \<mapsto> PList []] = Inr w
        \<and> length w = 22 \<and> w ! 2 = PInt 1)"
proof -
  have training: "\<exists>v. encode_interaction
           (\<lparr>user_id = 1, user_temperature_bias = PFloat 0.5, user_tourist_bias = PFloat 0.5,
             user_emotion = PStr ''happy''\<rparr>\<lparr>user_emotion := PStr ''angry''\<rparr>)
           \<lparr>search_user_id = 1, search_cuisines = Inr (PList []), search_tastes = Inr (PList []),
            search_diet = PStr ''None'', search_price_range = Inr (PList [PInt 2, PInt 3])\<rparr> = Inr v
        \<and> length v = 22 \<and> v ! 2 = PInt 1"
    using unknown_emotion_encodes_as_neutral
      [where e = "''angry''" and emotion = "PStr ''angry''"
         and u = "\<lparr>user_id = 1, user_temperature_bias = PFloat 0.5, user_tourist_bias = PFloat 0.5,
                   user_emotion = PStr ''happy''\<rparr>"
         and row = "\<lparr>search_user_id = 1, search_cuisines = Inr (PList []),
                     search_tastes = Inr (PList []), search_diet = PStr ''None'',
                     search_price_range = Inr (PList [PInt 2, PInt 3])\<rparr>"
         and c = "PList []" and t = "PList []" and p = "PList [PInt 2, PInt 3]"
         and cv = "[PInt 0, PInt 0, PInt 0, PInt 0, PInt 0, PInt 0, PInt 0, PInt 0]"
         and tv = "[PInt 0, PInt 0, PInt 0, PInt 0, PInt 0, PInt 0]"
         and pmin = "PInt 2" and pmax = "PInt 3"]
    by (simp add: eval_defs)
  have absent: "\<exists>w. prepare_feature_vector
           ([''temperature_bias'' \<mapsto> PFloat 0.5, ''tourist_bias'' \<mapsto> PFloat 0.5,
             ''emotion'' \<mapsto> PStr ''happy''](''emotion'' := None))
           [''cuisines'' \<mapsto> PList [], ''tastes'' \<mapsto> PList []] = Inr w
        \<and> length w = 22 \<and> w ! 2 = PInt 1"
    using unknown_emotion_encodes_as_neutral
      [where e = "''angry''" and stored = None
         and user_info = "[''temperature_bias'' \<mapsto> PFloat 0.5, ''tourist_bias'' \<mapsto> PFloat 0.5,
                           ''emotion'' \<mapsto> PStr ''happy'']"
         and recent_search = "[''cuisines'' \<mapsto> PList [], ''tastes'' \<mapsto> PList []]"
         and cs = "[]" and cuisines = "[]" and ts = "[]" and tastes = "[]"]
    by (simp add: eval_defs)
  have unknown: "\<exists>w. prepare_feature_vector
           ([''temperature_bias'' \<mapsto> PFloat 0.5, ''tourist_bias'' \<mapsto> PFloat 0.5,
             ''emotion'' \<mapsto> PStr ''happy''](''emotion'' := Some (PStr ''Happy'')))
           [''cuisines'' \<mapsto> PList [], ''tastes'' \<mapsto> PList []] = Inr w
        \<and> length w = 22 \<and> w ! 2 = PInt 1"
    using unknown_emotion_encodes_as_neutral
      [where e = "''Happy''" and stored = "Some (PStr ''Happy'')"
         and user_info = "[''temperature_bias'' \<mapsto> PFloat 0.5, ''tourist_bias'' \<mapsto> PFloat 0.5,
                           ''emotion'' \<mapsto> PStr ''happy'']"
         and recent_search = "[''cuisines'' \<mapsto> PList [], ''tastes'' \<mapsto> PList []]"
         and cs = "[]" and cuisines = "[]" and ts = "[]" and tastes = "[]"]
    by (simp add: eval_defs)
  from training absent unknown show ?thesis by blast
qed

section \<open>Training-data extraction\<close>

text \<open>
  C9, as the code has it. Over a database in which every interaction's user has a row
  in \<^verbatim>\<open>Users\<close> (its emotion a hashable value, as every stored value is) and in which
  the last search row of every such user that has one encodes without raising, the loop
  ends without raising: the interactions whose user has no search row contribute
  nothing, and every interaction whose user has at least one contributes exactly one
  pair, the encoding of the user's first row with the user's last search row and the
  interaction's feedback, in the order of the interactions; what the function returns
  is the conversion of these two lists. An interaction whose user has no row in
  \<^verbatim>\<open>Users\<close> is not skipped: the loop body raises \<^verbatim>\<open>IndexError\<close> on it and the
  extraction raises.
\<close>

theorem training_rows_follow_joinable_interactions:
  "((\<forall>i \<in> set (Interactions db). \<exists>u us.
        users_with_id db (interaction_user_id i) = u # us
      \<and> hashable (user_emotion u)
      \<and> (searches_with_user_id db (interaction_user_id i) \<noteq> [] \<longrightarrow>
           (\<exists>fv. encode_interaction u
                    (last (searches_with_user_id db (interaction_user_id i))) = Inr fv)))
     \<longrightarrow> (\<exists>data labels.
            training_loop db (Interactions db) [] [] = Inr (data, labels)
          \<and> labels = map interaction_feedback
                 (filter (\<lambda>i. searches_with_user_id db (interaction_user_id i) \<noteq> [])
                    (Interactions db))
          \<and> list_all2
              (\<lambda>i fv. \<exists>u us. users_with_id db (interaction_user_id i) = u # us
                   \<and> encode_interaction u
                        (last (searches_with_user_id db (interaction_user_id i))) = Inr fv)
              (filter (\<lambda>i. searches_with_user_id db (interaction_user_id i) \<noteq> [])
                 (Interactions db)) data
          \<and> prepare_training_data convert_rows convert_labels db =
              bind_exn (np_array convert_rows data) (\<lambda>X.
              bind_exn (np_array convert_labels labels) (\<lambda>y. Inr (X, y)))))
   \<and> (orphan \<in> set (Interactions db) \<and> users_with_id db (interaction_user_id orphan) = []
     \<longrightarrow> process_interaction db orphan = Inl IndexError
       \<and> (\<exists>e. training_loop db (Interactions db) [] [] = Inl e)
       \<and> (\<exists>e. prepare_training_data convert_rows convert_labels db = Inl e))"
proof -
  have joined: "\<exists>data labels.
            training_loop db (Interactions db) [] [] = Inr (data, labels)
          \<and> labels = map interaction_feedback
                 (filter (\<lambda>i. searches_with_user_id db (interaction_user_id i) \<noteq> [])
                    (Interactions db))
          \<and> list_all2
              (\<lambda>i fv. \<exists>u us. users_with_id db (interaction_user_id i) = u # us
                   \<and> encode_interaction u
                        (last (searches_with_user_id db (interaction_user_id i))) = Inr fv)
              (filter (\<lambda>i. searches_with_user_id db (interaction_user_id i) \<noteq> [])
                 (Interactions db)) data
          \<and> prepare_training_data convert_rows convert_labels db =
              bind_exn (np_array convert_rows data) (\<lambda>X.
              bind_exn (np_array convert_labels labels) (\<lambda>y. Inr (X, y)))"
    if h: "\<forall>i \<in> set (Interactions db). \<exists>u us.
        users_with_id db (interaction_user_id i) = u # us
      \<and> hashable (user_emotion u)
      \<and> (searches_with_user_id db (interaction_user_id i) \<noteq> [] \<longrightarrow>
           (\<exists>fv. encode_interaction u
                    (last (searches_with_user_id db (interaction_user_id i))) = Inr fv))"
  proof -
    from h have h': "\<forall>i \<in> set (Interactions db). \<exists>u us emotion.
             users_with_id db (interaction_user_id i) = u # us
           \<and> emotion_get (user_emotion u) = Inr emotion
           \<and> (searches_with_user_id db (interaction_user_id i) \<noteq> [] \<longrightarrow>
                (\<exists>fv. encode_interaction u
                         (last (searches_with_user_id db (interaction_user_id i))) = Inr fv))"
      by (meson emotion_get_hashable)
    from training_loop_joinable [OF h', of "[]" "[]"] obtain data labels where
      l: "training_loop db (Interactions db) [] [] = Inr (data, labels)"
      and y: "labels = map interaction_feedback
                 (filter (\<lambda>i. searches_with_user_id db (interaction_user_id i) \<noteq> [])
                    (Interactions db))"
      and X: "list_all2
              (\<lambda>i fv. \<exists>u us. users_with_id db (interaction_user_id i) = u # us
                   \<and> encode_interaction u
                        (last (searches_with_user_id db (interaction_user_id i))) = Inr fv)
              (filter (\<lambda>i. searches_with_user_id db (interaction_user_id i) \<noteq> [])
                 (Interactions db)) data"
      by auto
    from l have "prepare_training_data convert_rows convert_labels db =
              bind_exn (np_array convert_rows data) (\<lambda>X.
              bind_exn (np_array convert_labels labels) (\<lambda>y. Inr (X, y)))"
      by (simp add: prepare_training_data_def bind_exn_def)
    with l y X show ?thesis by blast
  qed
  have raised: "process_interaction db orphan = Inl IndexError
       \<and> (\<exists>e. training_loop db (Interactions db) [] [] = Inl e)
       \<and> (\<exists>e. prepare_training_data convert_rows convert_labels db = Inl e)"
    if o: "orphan \<in> set (Interactions db) \<and> users_with_id db (interaction_user_id orphan) = []"
  proof -
    from o have p: "process_interaction db orphan = Inl IndexError"
      by (simp add: process_interaction_without_user)
    from o p training_loop_raises [of orphan "Interactions db" db IndexError "[]" "[]"]
    obtain e where l: "training_loop db (Interactions db) [] [] = Inl e" by blast
    then have "prepare_training_data convert_rows convert_labels db = Inl e"
      by (simp add: prepare_training_data_def bind_exn_def)
    with p l show ?thesis by blast
  qed
  from joined raised show ?thesis by blast
qed

theorem training_rows_follow_joinable_interactions_witness:
  "prepare_training_data (\<lambda>rows. Inr rows) (\<lambda>labels. Inr labels)
     \<lparr>Users = [\<lparr>user_id = 1, user_temperature_bias = PFloat 0.8, user_tourist_bias = PFloat 0.2,
                user_emotion = PStr ''happy''\<rparr>,
               \<lparr>user_id = 2, user_temperature_bias = PFloat 0.5, user_tourist_bias = PFloat 0.5,
                user_emotion = PStr ''sad''\<rparr>],
      Searches = [\<lparr>search_user_id = 1, search_cuisines = Inr (PList [PStr ''Thai'']),
                  search_tastes = Inr (PList []), search_diet = PStr ''None'',
                  search_price_range = Inr (PList [PInt 1, PInt 4])\<rparr>,
                 \<lparr>search_user_id = 1, search_cuisines = Inr (PList [PStr ''Italian'']),
                  search_tastes = Inr (PList [PStr ''Spicy'']), search_diet = PStr ''Vegan'',
                  search_price_range = Inr (PList [PInt 2, PInt 3])\<rparr>],
      Interactions = [\<lparr>interaction_user_id = 1, interaction_feedback = PInt 1\<rparr>,
                      \<lparr>interaction_user_id = 2, interaction_feedback = PInt 1\<rparr>,
                      \<lparr>interaction_user_id = 1, interaction_feedback = PInt 0\<rparr>]\<rparr>
   = Inr ([[PFloat 0.8, PFloat 0.2, PInt 2,
            PInt 1, PInt 0, PInt 0, PInt 0, PInt 0, PInt 0, PInt 0, PInt 0,
            PInt 0, PInt 0, PInt 0, PInt 0, PInt 0, PInt 1,
            PInt 1, PInt 0, PInt 0,
            PInt 2, PInt 3],
           [PFloat 0.8, PFloat 0.2, PInt 2,
            PInt 1, PInt 0, PInt 0, PInt 0, PInt 0, PInt 0, PInt 0, PInt 0,
            PInt 0, PInt 0, PInt 0, PInt 0, PInt 0, PInt 1,
            PInt 1, PInt 0, PInt 0,
            PInt 2, PInt 3]],
          [PInt 1, PInt 0])
   \<and> (\<exists>e. prepare_training_data (\<lambda>rows. Inr rows) (\<lambda>labels. Inr labels)
          \<lparr>Users = [\<lparr>user_id = 2, user_temperature_bias = PFloat 0.5,
                     user_tourist_bias = PFloat 0.5, user_emotion = PStr ''sad''\<rparr>],
           Searches = [],
           Interactions = [\<lparr>interaction_user_id = 2, interaction_feedback = PInt 1\<rparr>,
                           \<lparr>interaction_user_id = 9, interaction_feedback = PInt 0\<rparr>]\<rparr>
        = (Inl e :: exn + pyval list list \<times> pyval list))"
proof -
  have joined: "prepare_training_data (\<lambda>rows. Inr rows) (\<lambda>labels. Inr labels)
     \<lparr>Users = [\<lparr>user_id = 1, user_temperature_bias = PFloat 0.8, user_tourist_bias = PFloat 0.2,
                user_emotion = PStr ''happy''\<rparr>,
               \<lparr>user_id = 2, user_temperature_bias = PFloat 0.5, user_tourist_bias = PFloat 0.5,
                user_emotion = PStr ''sad''\<rparr>],
      Searches = [\<lparr>search_user_id = 1, search_cuisines = Inr (PList [PStr ''Thai'']),
                  search_tastes = Inr (PList []), search_diet = PStr ''None'',
                  search_price_range = Inr (PList [PInt 1, PInt 4])\<rparr>,
                 \<lparr>search_user_id = 1, search_cuisines = Inr (PList [PStr ''Italian'']),
                  search_tastes = Inr (PList [PStr ''Spicy'']), search_diet = PStr ''Vegan'',
                  search_price_range = Inr (PList [PInt 2, PInt 3])\<rparr>],
      Interactions = [\<lparr>interaction_user_id = 1, interaction_feedback = PInt 1\<rparr>,
                      \<lparr>interaction_user_id = 2, interaction_feedback = PInt 1\<rparr>,
                      \<lparr>interaction_user_id = 1, interaction_feedback = PInt 0\<rparr>]\<rparr>
   = Inr ([[PFloat 0.8, PFloat 0.2, PInt 2,
            PInt 1, PInt 0, PInt 0, PInt 0, PInt 0, PInt 0, PInt 0, PInt 0,
            PInt 0, PInt 0, PInt 0, PInt 0, PInt 0, PInt 1,
            PInt 1, PInt 0, PInt 0,
            PInt 2, PInt 3],
           [PFloat 0.8, PFloat 0.2, PInt 2,
            PInt 1, PInt 0, PInt 0, PInt 0, PInt 0, PInt 0, PInt 0, PInt 0,
            PInt 0, PInt 0, PInt 0, PInt 0, PInt 0, PInt 1,
            PInt 1, PInt 0, PInt 0,
            PInt 2, PInt 3]],
          [PInt 1, PInt 0])"
    using training_rows_follow_joinable_interactions
      [where convert_rows = "\<lambda>rows. Inr rows" and convert_labels = "\<lambda>labels. Inr labels"
         and db = "\<lparr>Users = [\<lparr>user_id = 1, user_temperature_bias = PFloat 0.8,
                    user_tourist_bias = PFloat 0.2, user_emotion = PStr ''happy''\<rparr>,
                   \<lparr>user_id = 2, user_temperature_bias = PFloat 0.5, user_tourist_bias = PFloat 0.5,
                    user_emotion = PStr ''sad''\<rparr>],
          Searches = [\<lparr>search_user_id = 1, search_cuisines = Inr (PList [PStr ''Thai'']),
                      search_tastes = Inr (PList []), search_diet = PStr ''None'',
                      search_price_range = Inr (PList [PInt 1, PInt 4])\<rparr>,
                     \<lparr>search_user_id = 1, search_cuisines = Inr (PList [PStr ''Italian'']),
                      search_tastes = Inr (PList [PStr ''Spicy'']), search_diet = PStr ''Vegan'',
                      search_price_range = Inr (PList [PInt 2, PInt 3])\<rparr>],
          Interactions = [\<lparr>interaction_user_id = 1, interaction_feedback = PInt 1\<rparr>,
                          \<lparr>interaction_user_id = 2, interaction_feedback = PInt 1\<rparr>,
                          \<lparr>interaction_user_id = 1, interaction_feedback = PInt 0\<rparr>]\<rparr>"]
    by (simp add: users_with_id_def searches_with_user_id_def hashable_def np_array_def eval_defs
          list_all2_Cons1)
  have raised: "\<exists>e. prepare_training_data (\<lambda>rows. Inr rows) (\<lambda>labels. Inr labels)
          \<lparr>Users = [\<lparr>user_id = 2, user_temperature_bias = PFloat 0.5,
                     user_tourist_bias = PFloat 0.5, user_emotion = PStr ''sad''\<rparr>],
           Searches = [],
           Interactions = [\<lparr>interaction_user_id = 2, interaction_feedback = PInt 1\<rparr>,
                           \<lparr>interaction_user_id = 9, interaction_feedback = PInt 0\<rparr>]\<rparr>
        = (Inl e :: exn + pyval list list \<times> pyval list)"
    using training_rows_follow_joinable_interactions
      [where convert_rows = "\<lambda>rows. Inr rows :: exn + pyval list list"
         and convert_labels = "\<lambda>labels. Inr labels :: exn + pyval list"
         and orphan = "\<lparr>interaction_user_id = 9, interaction_feedback = PInt 0\<rparr>"
         and db = "\<lparr>Users = [\<lparr>user_id = 2, user_temperature_bias = PFloat 0.5,
                     user_tourist_bias = PFloat 0.5, user_emotion = PStr ''sad''\<rparr>],
           Searches = [],
           Interactions = [\<lparr>interaction_user_id = 2, interaction_feedback = PInt 1\<rparr>,
                           \<lparr>interaction_user_id = 9, interaction_feedback = PInt 0\<rparr>]\<rparr>"]
    by (simp add: users_with_id_def)
  from joined raised show ?thesis by blast
qed

text \<open>
  Without the two conditions the claim fails. For an interaction whose user has neither
  a search row nor a user row, \<^verbatim>\<open>.iloc[0]\<close> raises before the search rows are looked
  at. For an interaction whose user has a search row that does not encode (here its
  cuisines column holds the JSON \<open>null\<close>), no pair is contributed: the extraction raises.
\<close>

theorem extraction_raises_on_unjoinable_rows:
  "searches_with_user_id
     \<lparr>Users = [\<lparr>user_id = 1, user_temperature_bias = PFloat 0.5, user_tourist_bias = PFloat 0.5,
                user_emotion = PStr ''neutral''\<rparr>],
      Searches = [],
      Interactions = [\<lparr>interaction_user_id = 7, interaction_feedback = PInt 1\<rparr>]\<rparr> 7 = []
   \<and> prepare_training_data (\<lambda>rows. Inr rows) (\<lambda>labels. Inr labels)
     \<lparr>Users = [\<lparr>user_id = 1, user_temperature_bias = PFloat 0.5, user_tourist_bias = PFloat 0.5,
                user_emotion = PStr ''neutral''\<rparr>],
      Searches = [],
      Interactions = [\<lparr>interaction_user_id = 7, interaction_feedback = PInt 1\<rparr>]\<rparr>
     = (Inl IndexError :: exn + pyval list list \<times> pyval list)
   \<and> length (searches_with_user_id
     \<lparr>Users = [\<lparr>user_id = 1, user_temperature_bias = PFloat 0.5, user_tourist_bias = PFloat 0.5,
                user_emotion = PStr ''neutral''\<rparr>],
      Searches = [\<lparr>search_user_id = 1, search_cuisines = Inr PNone,
                  search_tastes = Inr (PList []), search_diet = PStr ''None'',
                  search_price_range = Inr (PList [PInt 1, PInt 4])\<rparr>],
      Interactions = [\<lparr>interaction_user_id = 1, interaction_feedback = PInt 1\<rparr>]\<rparr> 1) = 1
   \<and> prepare_training_data (\<lambda>rows. Inr rows) (\<lambda>labels. Inr labels)
     \<lparr>Users = [\<lparr>user_id = 1, user_temperature_bias = PFloat 0.5, user_tourist_bias = PFloat 0.5,
                user_emotion = PStr ''neutral''\<rparr>],
      Searches = [\<lparr>search_user_id = 1, search_cuisines = Inr PNone,
                  search_tastes = Inr (PList []), search_diet = PStr ''None'',
                  search_price_range = Inr (PList [PInt 1, PInt 4])\<rparr>],
      Interactions = [\<lparr>interaction_user_id = 1, interaction_feedback = PInt 1\<rparr>]\<rparr>
     = (Inl TypeError :: exn + pyval list list \<times> pyval list)"
  by (simp add: loop_defs eval_defs)

end
